theory Spec2Isabelle
  imports Main
begin

section \<open>FlipArt: the workflow handlers of App.tsx\<close>

text \<open>
  The React component \<open>App\<close> keeps its state in \<open>useState\<close> cells and changes it in event
  handlers. Each cell is a field of the record \<open>app_state\<close>; each handler is a function
  from the state before the event to the state after it. The three asynchronous handlers
  (\<open>handleGenerate\<close>, \<open>handleSendMessage\<close>, \<open>handleAudioEnhance\<close>) are split at
  the \<open>await\<close> of the gateway call: a start part that runs up to the call and yields the
  request (or returns early), and a finish part that runs the \<open>try\<close> continuation, the \<open>catch\<close>
  block and the \<open>finally\<close> block on the outcome of the call. What the browser and the
  gateway supply (the reply of the gateway, the readings of \<open>Date.now()\<close>, the result of
  \<open>JSON.parse\<close>, the URLs minted by \<open>URL.createObjectURL\<close>) is a parameter.
\<close>

subsection \<open>JavaScript strings\<close>

text \<open>
  \<open>String.prototype.trim\<close> removes white space and line terminators from both ends. On
  the code units below 256 these are TAB, LF, VT, FF, CR, SPACE and NBSP.
\<close>

definition is_ws :: "char \<Rightarrow> bool" where
  "is_ws c = (c = CHR 0x09 \<or> c = CHR 0x0A \<or> c = CHR 0x0B \<or> c = CHR 0x0C
            \<or> c = CHR 0x0D \<or> c = CHR 0x20 \<or> c = CHR 0xA0)"

definition trim :: "string \<Rightarrow> string" where
  "trim s = rev (dropWhile is_ws (rev (dropWhile is_ws s)))"

text \<open>\<open>s.split(c)\<close> for a one-character separator: always at least one segment.\<close>

fun split_on :: "char \<Rightarrow> string \<Rightarrow> string list" where
  "split_on c [] = [] # []"
| "split_on c (x # xs) =
     (if x = c then [] # split_on c xs
      else (case split_on c xs of
              [] \<Rightarrow> [x] # []
            | w # ws \<Rightarrow> (x # w) # ws))"

text \<open>\<open>a[1]\<close> on an array: \<open>undefined\<close> (here \<open>None\<close>) when the array is shorter.\<close>

definition index1 :: "'a list \<Rightarrow> 'a option" where
  "index1 xs = (if 1 < length xs then Some (xs ! 1) else None)"

text \<open>\<open>url.split(',')[1]\<close>: the payload of a data URL, \<open>undefined\<close> without a comma.\<close>

definition data_url_payload :: "string \<Rightarrow> string option" where
  "data_url_payload u = index1 (split_on CHR '','' u)"

text \<open>
  Truthiness of a value of type \<open>string | undefined\<close>, and \<open>a || b\<close> on strings.
\<close>

fun truthy :: "string option \<Rightarrow> bool" where
  "truthy None = False"
| "truthy (Some s) = (s \<noteq> [])"

definition or_else :: "string option \<Rightarrow> string \<Rightarrow> string" where
  "or_else a b = (case a of None \<Rightarrow> b | Some s \<Rightarrow> if s = [] then b else s)"

text \<open>\<open>Number.prototype.toString\<close> on an integer: decimal digits, with a sign if negative.\<close>

definition digit_char :: "nat \<Rightarrow> char" where
  "digit_char d = ''0123456789'' ! d"

fun show_nat :: "nat \<Rightarrow> string" where
  "show_nat n = (if n < 10 then [digit_char n] else show_nat (n div 10) @ [digit_char (n mod 10)])"

definition toString :: "int \<Rightarrow> string" where
  "toString i = (if i < 0 then CHR ''-'' # show_nat (nat (- i)) else show_nat (nat i))"

text \<open>Reading a decimal numeral back, to show that \<open>toString\<close> loses nothing.\<close>

definition digit_val :: "char \<Rightarrow> nat" where
  "digit_val c = of_char c - 48"

definition read_nat :: "string \<Rightarrow> nat" where
  "read_nat cs = foldl (\<lambda>a c. 10 * a + digit_val c) 0 cs"

definition read_int :: "string \<Rightarrow> int" where
  "read_int cs =
     (case cs of
        [] \<Rightarrow> 0
      | c # r \<Rightarrow> if c = CHR ''-'' then - int (read_nat r) else int (read_nat cs))"

subsection \<open>Data (types.ts and the interfaces of App.tsx)\<close>

datatype AspectRatio = R1_1 | R3_4 | R4_3 | R9_16 | R16_9

record GeneratedImage =
  img_id :: string
  img_url :: string
  img_prompt :: string
  img_timestamp :: int
  img_aspectRatio :: AspectRatio

record GenerationSettings =
  aspectRatio :: AspectRatio

datatype Role = User | Model

record ChatMessage =
  msg_role :: Role
  msg_text :: string
  msg_image :: "string option"

record UserProfile =
  name :: string
  email :: string

text \<open>A \<open>File\<close>: its MIME type and its bytes.\<close>

record File =
  file_type :: string
  file_bytes :: string

record AudioResult =
  original :: string
  enhanced :: string
  transcription :: string

text \<open>
  The state cells of \<open>App\<close> that the handlers read or write, with the two pieces of browser
  state they change: \<open>localStorage\<close> and the registry of object URLs, which maps each URL
  minted by \<open>URL.createObjectURL\<close> to the file it stands for.
\<close>

record app_state =
  prompt :: string
  isGenerating :: bool
  settings :: GenerationSettings
  history :: "GeneratedImage list"
  error :: "string option"
  user :: "UserProfile option"
  showAuthModal :: bool
  chatInput :: string
  attachedImage :: "GeneratedImage option"
  chatMessages :: "ChatMessage list"
  isChatting :: bool
  audioFile :: "File option"
  isAudioProcessing :: bool
  audioResult :: "AudioResult option"
  localStorage :: "string \<Rightarrow> string option"
  objectURLs :: "string \<Rightarrow> File option"

definition STORAGE_KEY :: string where
  "STORAGE_KEY = ''flipart_history''"

definition USER_KEY :: string where
  "USER_KEY = ''flipart_user''"

text \<open>The initial value of \<open>chatMessages\<close> (the argument of its \<open>useState\<close>).\<close>

definition initialChatMessages :: "ChatMessage list" where
  "initialChatMessages =
     [\<lparr>msg_role = Model,
       msg_text = ''Hello! I am your FlipArt AI Assistant. I can help you craft better prompts or analyze your generated art. How can I assist you today?'',
       msg_image = None\<rparr>]"

text \<open>The state of a freshly mounted component, over a given browser state.\<close>

definition initial_state :: "(string \<Rightarrow> string option) \<Rightarrow> (string \<Rightarrow> File option) \<Rightarrow> app_state" where
  "initial_state ls urls =
     \<lparr>prompt = [], isGenerating = False, settings = \<lparr>aspectRatio = R1_1\<rparr>, history = [],
      error = None, user = None, showAuthModal = False, chatInput = [],
      attachedImage = None, chatMessages = initialChatMessages, isChatting = False,
      audioFile = None, isAudioProcessing = False, audioResult = None,
      localStorage = ls, objectURLs = urls\<rparr>"

subsection \<open>Outcomes of asynchronous calls\<close>

text \<open>
  A call either throws (a rejected promise) an error object whose \<open>message\<close> may be
  missing, or resolves to a value. A handler either returns before the gateway call (\<open>Skipped\<close>, with
  the state it leaves) or reaches it (\<open>Started\<close>, with the state at the \<open>await\<close> and the
  request sent).
\<close>

datatype js_error = JsError (message: "string option")

datatype 'a outcome = Threw js_error | Resolved 'a

datatype 'r started = Skipped app_state | Started app_state 'r

fun state_of :: "'r started \<Rightarrow> app_state" where
  "state_of (Skipped s) = s"
| "state_of (Started s r) = s"

fun request_of :: "'r started \<Rightarrow> 'r option" where
  "request_of (Skipped s) = None"
| "request_of (Started s r) = Some r"

subsection \<open>Sign-out and the Clear History button\<close>

definition handleLogout :: "app_state \<Rightarrow> app_state" where
  "handleLogout s =
     s\<lparr>user := None,
       localStorage := (localStorage s)(USER_KEY := None),
       chatMessages :=
         [\<lparr>msg_role = Model,
           msg_text = ''Hello! I am your FlipArt Assistant. How can I help you today?'',
           msg_image = None\<rparr>]\<rparr>"

text \<open>\<open>onClick={() => setChatMessages([])}\<close>\<close>

definition clearHistory :: "app_state \<Rightarrow> app_state" where
  "clearHistory s = s\<lparr>chatMessages := []\<rparr>"

text \<open>
  A click on entry \<open>i\<close> of the context gallery, which lists \<open>history\<close>:
  \<open>onClick={() => setAttachedImage(img)}\<close>.
\<close>

definition attachFromGallery :: "nat \<Rightarrow> app_state \<Rightarrow> app_state" where
  "attachFromGallery i s =
     (if i < length (history s) then s\<lparr>attachedImage := Some (history s ! i)\<rparr> else s)"

text \<open>Typing in the prompt field: \<open>onChange={(e) => setPrompt(e.target.value)}\<close>.\<close>

definition setPrompt :: "string \<Rightarrow> app_state \<Rightarrow> app_state" where
  "setPrompt v s = s\<lparr>prompt := v\<rparr>"

subsection \<open>Image generation: handleGenerate\<close>

text \<open>
  The service \<open>generateImage\<close> is a parameter: a function from the prompt and the aspect
  ratio to the outcome of the call. \<open>now1\<close> and \<open>now2\<close> are the two readings of
  \<open>Date.now()\<close> on the success path (for \<open>id\<close> and for \<open>timestamp\<close>). The finish
  part takes the prompt and the ratio as the closure captured them at the start.
\<close>

definition handleGenerate_start :: "app_state \<Rightarrow> (string \<times> AspectRatio) started" where
  "handleGenerate_start s =
     (if trim (prompt s) = [] \<or> isGenerating s then Skipped s
      else if user s = None then Skipped (s\<lparr>showAuthModal := True\<rparr>)
      else Started (s\<lparr>isGenerating := True, error := None\<rparr>)
                   (prompt s, aspectRatio (settings s)))"

definition handleGenerate_finish ::
  "string \<times> AspectRatio \<Rightarrow> string outcome \<Rightarrow> int \<Rightarrow> int \<Rightarrow> app_state \<Rightarrow> app_state" where
  "handleGenerate_finish req res now1 now2 s =
     (case res of
        Resolved imageUrl \<Rightarrow>
          s\<lparr>history :=
              \<lparr>img_id = toString now1, img_url = imageUrl, img_prompt = fst req,
               img_timestamp = now2, img_aspectRatio = snd req\<rparr> # history s,
            prompt := [],
            isGenerating := False\<rparr>
      | Threw err \<Rightarrow>
          s\<lparr>error := Some (or_else (message err) ''Failed to generate image.''),
            isGenerating := False\<rparr>)"

definition handleGenerate ::
  "(string \<Rightarrow> AspectRatio \<Rightarrow> string outcome) \<Rightarrow> int \<Rightarrow> int \<Rightarrow> app_state \<Rightarrow> app_state" where
  "handleGenerate generateImage now1 now2 s =
     (case handleGenerate_start s of
        Skipped s' \<Rightarrow> s'
      | Started s' req \<Rightarrow>
          handleGenerate_finish req (generateImage (fst req) (snd req)) now1 now2 s')"

text \<open>
  A run of generation calls. Before each call the user types a prompt and picks a ratio
  (\<open>setPrompt\<close>, \<open>setSettings\<close>); the service answers with a reference and the clock is
  read twice.
\<close>

record gen_call =
  call_prompt :: string
  call_ratio :: AspectRatio
  call_url :: string
  call_now1 :: int
  call_now2 :: int

definition generate_call :: "gen_call \<Rightarrow> app_state \<Rightarrow> app_state" where
  "generate_call c s =
     handleGenerate (\<lambda>p r. Resolved (call_url c)) (call_now1 c) (call_now2 c)
       (s\<lparr>prompt := call_prompt c, settings := \<lparr>aspectRatio = call_ratio c\<rparr>\<rparr>)"

definition run_generations :: "gen_call list \<Rightarrow> app_state \<Rightarrow> app_state" where
  "run_generations cs s = fold generate_call cs s"

text \<open>The artifact a successful call constructs.\<close>

definition artifact_of :: "gen_call \<Rightarrow> GeneratedImage" where
  "artifact_of c =
     \<lparr>img_id = toString (call_now1 c), img_url = call_url c, img_prompt = call_prompt c,
      img_timestamp = call_now2 c, img_aspectRatio = call_ratio c\<rparr>"

subsection \<open>The assistant: handleSendMessage\<close>

datatype Part = Text string | InlineData "string option" string

record Content =
  c_role :: Role
  c_parts :: "Part list"

record ChatRequest =
  req_model :: string
  req_contents :: "Content list"
  req_systemInstruction :: string

text \<open>The callback of \<open>chatMessages.map\<close>.\<close>

definition encode_message :: "ChatMessage \<Rightarrow> Content" where
  "encode_message msg =
     \<lparr>c_role = msg_role msg,
      c_parts =
        (case msg_image msg of
           None \<Rightarrow> [Text (msg_text msg)]
         | Some im \<Rightarrow>
             if im = [] then [Text (msg_text msg)]
             else [InlineData (data_url_payload im) ''image/png'',
                   Text (or_else (Some (msg_text msg)) ''Analyze this image.'')])\<rparr>"

definition currentParts :: "GeneratedImage option \<Rightarrow> string \<Rightarrow> Part list" where
  "currentParts currentAttachment userText =
     (case currentAttachment of
        None \<Rightarrow> []
      | Some a \<Rightarrow> [InlineData (data_url_payload (img_url a)) ''image/png''])
     @ [Text (or_else (Some userText)
               (if currentAttachment \<noteq> None then ''What do you think of this generation?''
                else []))]"

definition build_contents ::
  "ChatMessage list \<Rightarrow> GeneratedImage option \<Rightarrow> string \<Rightarrow> Content list" where
  "build_contents msgs currentAttachment userText =
     map encode_message msgs @ [\<lparr>c_role = User, c_parts = currentParts currentAttachment userText\<rparr>]"

definition systemInstruction :: "UserProfile \<Rightarrow> string" where
  "systemInstruction u =
     ''You are the FlipArt AI Assistant. You help users with prompt engineering and art analysis. \<newline>''
     @ ''          When an image is provided, analyze its composition, style, and quality. \<newline>''
     @ ''          If the user asks for prompt improvements, give them clear, descriptive keywords.\<newline>''
     @ ''          Current user: '' @ name u @ ''.''"

text \<open>The argument of \<open>ai.models.generateContent\<close>, for the signed-in user \<open>u\<close>.\<close>

definition chat_request :: "app_state \<Rightarrow> UserProfile \<Rightarrow> ChatRequest" where
  "chat_request s u =
     \<lparr>req_model = ''gemini-3-flash-preview'',
      req_contents = build_contents (chatMessages s) (attachedImage s) (trim (chatInput s)),
      req_systemInstruction = systemInstruction u\<rparr>"

definition handleSendMessage_start :: "app_state \<Rightarrow> ChatRequest started" where
  "handleSendMessage_start s =
     (if (trim (chatInput s) = [] \<and> attachedImage s = None) \<or> isChatting s then Skipped s
      else (case user s of
              None \<Rightarrow> Skipped (s\<lparr>showAuthModal := True\<rparr>)
            | Some u \<Rightarrow>
                Started
                  (s\<lparr>chatInput := [],
                     attachedImage := None,
                     chatMessages := chatMessages s @
                       [\<lparr>msg_role = User, msg_text = trim (chatInput s),
                         msg_image = map_option img_url (attachedImage s)\<rparr>],
                     isChatting := True\<rparr>)
                  (chat_request s u)))"

text \<open>
  The gateway resolves to a response whose \<open>text\<close> may be \<open>undefined\<close>, or throws.
\<close>

definition handleSendMessage_finish :: "string option outcome \<Rightarrow> app_state \<Rightarrow> app_state" where
  "handleSendMessage_finish res s =
     (case res of
        Resolved response_text \<Rightarrow>
          s\<lparr>chatMessages := chatMessages s @
              [\<lparr>msg_role = Model,
                msg_text = or_else response_text ''I'm sorry, I couldn't process that request.'',
                msg_image = None\<rparr>],
            isChatting := False\<rparr>
      | Threw err \<Rightarrow>
          s\<lparr>chatMessages := chatMessages s @
              [\<lparr>msg_role = Model,
                msg_text = ''I encountered an error analyzing your request. Please try again.'',
                msg_image = None\<rparr>],
            isChatting := False\<rparr>)"

definition handleSendMessage ::
  "(ChatRequest \<Rightarrow> string option outcome) \<Rightarrow> app_state \<Rightarrow> app_state" where
  "handleSendMessage generateContent s =
     (case handleSendMessage_start s of
        Skipped s' \<Rightarrow> s'
      | Started s' req \<Rightarrow> handleSendMessage_finish (generateContent req) s')"

text \<open>
  The page stays live while the gateway call is pending: the Clear History button, the
  gallery and the other tabs are enabled. \<open>during\<close> is what the events of that time do
  to the state; the finish part runs on the state they leave, since its appends are
  functional updates (\<open>prev => [...prev, m]\<close>). With no event, this is \<open>handleSendMessage\<close>.
\<close>

definition handleSendMessage_pending ::
  "(ChatRequest \<Rightarrow> string option outcome) \<Rightarrow> (app_state \<Rightarrow> app_state) \<Rightarrow> app_state
     \<Rightarrow> app_state" where
  "handleSendMessage_pending generateContent during s =
     (case handleSendMessage_start s of
        Skipped s' \<Rightarrow> s'
      | Started s' req \<Rightarrow> handleSendMessage_finish (generateContent req) (during s'))"

subsection \<open>Audio: handleAudioEnhance\<close>

record AudioRequest =
  areq_model :: string
  areq_parts :: "Part list"
  areq_systemInstruction :: string

text \<open>
  \<open>readAsDataURL\<close> is the data URL the \<open>FileReader\<close> delivers for a file. No state
  changes between the two awaits of the handler. The start part yields the request
  together with the file, which the closure keeps for the finish part.
\<close>

definition handleAudioEnhance_start ::
  "(File \<Rightarrow> string) \<Rightarrow> app_state \<Rightarrow> (File \<times> AudioRequest) started" where
  "handleAudioEnhance_start readAsDataURL s =
     (case audioFile s of
        None \<Rightarrow> Skipped s
      | Some f \<Rightarrow>
          if isAudioProcessing s then Skipped s
          else if user s = None then Skipped (s\<lparr>showAuthModal := True\<rparr>)
          else Started (s\<lparr>isAudioProcessing := True, error := None\<rparr>)
                 (f,
                 \<lparr>areq_model = ''gemini-3-flash-preview'',
                  areq_parts =
                    [InlineData (data_url_payload (readAsDataURL f)) (file_type f),
                     Text ''Remove the background noise from this voice recording. Describe the audio quality, transcribe the spoken words accurately, and simulate an 'enhanced' version summary.''],
                  areq_systemInstruction =
                    ''You are an AI Audio Engineer. You specialize in noise reduction, speech enhancement, and audio analysis.''\<rparr>))"

text \<open>\<open>URL.createObjectURL(f)\<close>: the browser mints the URL \<open>u\<close> and registers it for \<open>f\<close>.\<close>

definition createObjectURL :: "string \<Rightarrow> File \<Rightarrow> app_state \<Rightarrow> app_state" where
  "createObjectURL u f s = s\<lparr>objectURLs := (objectURLs s)(u \<mapsto> f)\<rparr>"

text \<open>
  The finish part, for the file \<open>f\<close> the closure keeps; \<open>u1\<close> and \<open>u2\<close> are the URLs
  the two calls of \<open>URL.createObjectURL\<close> mint. \<open>"..." + err.message\<close> prints a missing
  message as \<open>undefined\<close>.
\<close>

definition handleAudioEnhance_finish ::
  "File \<Rightarrow> string option outcome \<Rightarrow> string \<Rightarrow> string \<Rightarrow> app_state \<Rightarrow> app_state" where
  "handleAudioEnhance_finish f res u1 u2 s =
     (case res of
        Resolved response_text \<Rightarrow>
          (createObjectURL u2 f (createObjectURL u1 f s))
            \<lparr>audioResult :=
               Some \<lparr>original = u1, enhanced = u2,
                     transcription = or_else response_text ''Processing complete.''\<rparr>,
             isAudioProcessing := False\<rparr>
      | Threw err \<Rightarrow>
          s\<lparr>error := Some (''Audio processing failed: ''
                            @ (case message err of None \<Rightarrow> ''undefined'' | Some m \<Rightarrow> m)),
            isAudioProcessing := False\<rparr>)"

definition handleAudioEnhance ::
  "(File \<Rightarrow> string) \<Rightarrow> (AudioRequest \<Rightarrow> string option outcome) \<Rightarrow> string \<Rightarrow> string
     \<Rightarrow> app_state \<Rightarrow> app_state" where
  "handleAudioEnhance readAsDataURL generateContent u1 u2 s =
     (case handleAudioEnhance_start readAsDataURL s of
        Skipped s' \<Rightarrow> s'
      | Started s' freq \<Rightarrow>
          handleAudioEnhance_finish (fst freq) (generateContent (snd freq)) u1 u2 s')"

subsection \<open>Loading persisted state on mount\<close>

text \<open>
  At run time a state cell holds whatever \<open>JSON.parse\<close> returned, so the load effect is
  modelled on JSON values. \<open>JSON.parse\<close> belongs to the platform: its outcome on the
  stored text is a parameter, \<open>SyntaxError\<close> when it throws. Numbers are kept as
  integers, which is what a timestamp is.
\<close>

datatype json =
    JNull
  | JBool bool
  | JNum int
  | JStr string
  | JArr "json list"
  | JObj "(string \<times> json) list"

datatype parse_result = SyntaxError | Parsed json

text \<open>
  One half of the effect: \<open>saved\<close> is the result of \<open>localStorage.getItem\<close>, \<open>cell\<close>
  the value of the state cell before the effect.
\<close>

definition load_item :: "string option \<Rightarrow> parse_result \<Rightarrow> json \<Rightarrow> json" where
  "load_item saved parsed cell =
     (if truthy saved then (case parsed of SyntaxError \<Rightarrow> cell | Parsed v \<Rightarrow> v) else cell)"

text \<open>
  The effect on the cells \<open>history\<close> (initially \<open>[]\<close>) and \<open>user\<close> (initially \<open>null\<close>).
\<close>

definition load_effect ::
  "string option \<Rightarrow> parse_result \<Rightarrow> string option \<Rightarrow> parse_result \<Rightarrow> json \<times> json" where
  "load_effect savedHistory parsedHistory savedUser parsedUser =
     (load_item savedHistory parsedHistory (JArr []), load_item savedUser parsedUser JNull)"

text \<open>The shape of a \<open>GeneratedImage[]\<close> (types.ts) as a JSON value.\<close>

definition is_AspectRatio :: "string \<Rightarrow> bool" where
  "is_AspectRatio r = (r \<in> set [''1:1'', ''3:4'', ''4:3'', ''9:16'', ''16:9''])"

fun is_GeneratedImage :: "json \<Rightarrow> bool" where
  "is_GeneratedImage (JObj fs) =
     (case (map_of fs ''id'', map_of fs ''url'', map_of fs ''prompt'',
            map_of fs ''timestamp'', map_of fs ''aspectRatio'') of
        (Some (JStr i), Some (JStr u), Some (JStr p), Some (JNum t), Some (JStr r)) \<Rightarrow>
          is_AspectRatio r
      | _ \<Rightarrow> False)"
| "is_GeneratedImage _ = False"

fun is_history :: "json \<Rightarrow> bool" where
  "is_history (JArr xs) = list_all is_GeneratedImage xs"
| "is_history _ = False"

text \<open>
  The History Grid of the generator tab, the tab shown on mount, as the render after the
  effect evaluates it on the value of the \<open>history\<close> cell:
  \<open>history.length === 0 ? ... : history.map(...)\<close>. Reading \<open>length\<close> of \<open>null\<close>
  throws; on any other value that is not an array, \<open>length\<close> is \<open>0\<close> only for an empty
  string or an object with such a property, and otherwise \<open>history.map\<close> is not a
  function and the call throws. Only the branch taken is modelled, not the cards.
\<close>

datatype render_error = TypeError

datatype gallery = EmptyGallery | Grid "json list"

definition gallery_section :: "json \<Rightarrow> render_error + gallery" where
  "gallery_section h =
     (case h of
        JNull \<Rightarrow> Inl TypeError
      | JBool b \<Rightarrow> Inl TypeError
      | JNum n \<Rightarrow> Inl TypeError
      | JStr s \<Rightarrow> if s = [] then Inr EmptyGallery else Inl TypeError
      | JArr xs \<Rightarrow> if xs = [] then Inr EmptyGallery else Inr (Grid xs)
      | JObj fs \<Rightarrow> if map_of fs ''length'' = Some (JNum 0) then Inr EmptyGallery
                   else Inl TypeError)"

subsection \<open>Concrete inputs for the examples\<close>

definition demo_user :: UserProfile where
  "demo_user = \<lparr>name = ''Ada'', email = ''ada@example.org''\<rparr>"

definition demo_image :: GeneratedImage where
  "demo_image =
     \<lparr>img_id = ''1700000000000'', img_url = ''data:image/png;base64,AAAA'',
      img_prompt = ''a red fox'', img_timestamp = 1700000000000, img_aspectRatio = R1_1\<rparr>"

definition demo_file :: File where
  "demo_file = \<lparr>file_type = ''audio/wav'', file_bytes = ''RIFF''\<rparr>"

definition signed_in :: app_state where
  "signed_in = (initial_state (\<lambda>k. None) (\<lambda>u. None))\<lparr>user := Some demo_user\<rparr>"

text \<open>Gateways that answer with a text, with an empty text, and that fail.\<close>

definition gateway_text :: "'r \<Rightarrow> string option outcome" where
  "gateway_text req = Resolved (Some ''A fine image.'')"

definition gateway_empty :: "'r \<Rightarrow> string option outcome" where
  "gateway_empty req = Resolved (Some [])"

definition gateway_down :: "'r \<Rightarrow> string option outcome" where
  "gateway_down req = Threw (JsError (Some ''503''))"

definition service_down :: "string \<Rightarrow> AspectRatio \<Rightarrow> string outcome" where
  "service_down p r = Threw (JsError (Some ''quota exceeded''))"

definition service_silent :: "string \<Rightarrow> AspectRatio \<Rightarrow> string outcome" where
  "service_silent p r = Threw (JsError None)"

definition data_url_of :: "File \<Rightarrow> string" where
  "data_url_of f = ''data:'' @ file_type f @ '';base64,UklGRg==''"

text \<open>States and calls the examples below run the handlers on.\<close>

definition busy_state :: app_state where
  "busy_state =
     signed_in\<lparr>prompt := ''a red fox'', isGenerating := True,
               chatInput := ''describe this'', attachedImage := Some demo_image,
               isChatting := True,
               audioFile := Some demo_file, isAudioProcessing := True\<rparr>"

definition blank_state :: app_state where
  "blank_state = signed_in\<lparr>prompt := ''   '', chatInput := '' ''\<rparr>"

definition hi_state :: app_state where
  "hi_state = signed_in\<lparr>chatInput := ''hi''\<rparr>"

text \<open>
  Signed in, one image generated and picked in the gallery, a question typed.
\<close>

definition fox_gallery_state :: app_state where
  "fox_gallery_state =
     signed_in\<lparr>history := [demo_image], chatInput := ''describe this'',
               attachedImage := Some demo_image\<rparr>"

definition gallery_chat_state :: app_state where
  "gallery_chat_state =
     signed_in\<lparr>chatMessages :=
                 [\<lparr>msg_role = User, msg_text = [],
                   msg_image = Some ''data:image/png;base64,BBBB''\<rparr>,
                  \<lparr>msg_role = Model, msg_text = ''A fox.'', msg_image = None\<rparr>],
               chatInput := '' and this one? '',
               attachedImage := Some demo_image\<rparr>"

definition photo_only_state :: app_state where
  "photo_only_state = signed_in\<lparr>chatMessages := [], attachedImage := Some demo_image\<rparr>"

definition audio_state :: app_state where
  "audio_state = signed_in\<lparr>audioFile := Some demo_file\<rparr>"

definition audio_request :: AudioRequest where
  "audio_request =
     \<lparr>areq_model = ''gemini-3-flash-preview'',
      areq_parts =
        [InlineData (Some ''UklGRg=='') ''audio/wav'',
         Text ''Remove the background noise from this voice recording. Describe the audio quality, transcribe the spoken words accurately, and simulate an 'enhanced' version summary.''],
      areq_systemInstruction =
        ''You are an AI Audio Engineer. You specialize in noise reduction, speech enhancement, and audio analysis.''\<rparr>"

definition fox_call :: gen_call where
  "fox_call =
     \<lparr>call_prompt = ''a red fox'', call_ratio = R1_1,
      call_url = ''data:image/png;base64,AAAA'',
      call_now1 = 1700000000000, call_now2 = 1700000000000\<rparr>"

definition elk_call :: gen_call where
  "elk_call =
     \<lparr>call_prompt = ''an elk at dawn'', call_ratio = R16_9,
      call_url = ''data:image/png;base64,BBBB'',
      call_now1 = 1700000004217, call_now2 = 1700000004217\<rparr>"

definition owl_call :: gen_call where
  "owl_call =
     \<lparr>call_prompt = ''a grey owl'', call_ratio = R3_4,
      call_url = ''data:image/png;base64,CCCC'',
      call_now1 = 1700000000000, call_now2 = 1700000000000\<rparr>"

section \<open>Properties\<close>

subsection \<open>Decimal numerals\<close>

declare show_nat.simps [simp del]

lemma digit_cases: "d < 10 \<Longrightarrow> d \<in> {0, 1, 2, 3, 4, 5, 6, 7, 8, 9::nat}"
  by auto

lemma digit_val_digit_char: "d < 10 \<Longrightarrow> digit_val (digit_char d) = d"
  by (drule digit_cases) (auto simp: digit_val_def digit_char_def)

lemma digit_char_not_minus: "d < 10 \<Longrightarrow> digit_char d \<noteq> CHR ''-''"
  by (drule digit_cases) (auto simp: digit_char_def)

lemma read_nat_snoc: "read_nat (cs @ [c]) = 10 * read_nat cs + digit_val c"
  by (simp add: read_nat_def)

lemma read_nat_show_nat: "read_nat (show_nat n) = n"
proof (induction n rule: show_nat.induct)
  case (1 n)
  show ?case
  proof (cases "n < 10")
    case True
    then show ?thesis
      by (subst show_nat.simps) (simp add: read_nat_def digit_val_digit_char)
  next
    case False
    with 1 have "read_nat (show_nat (n div 10)) = n div 10" by simp
    with False show ?thesis
      by (subst show_nat.simps) (simp add: read_nat_snoc digit_val_digit_char)
  qed
qed

lemma show_nat_hd: "\<exists>c cs. show_nat n = c # cs \<and> c \<noteq> CHR ''-''"
proof (induction n rule: show_nat.induct)
  case (1 n)
  show ?case
  proof (cases "n < 10")
    case True
    then show ?thesis
      by (subst show_nat.simps) (simp add: digit_char_not_minus)
  next
    case False
    with 1 obtain c cs where "show_nat (n div 10) = c # cs" "c \<noteq> CHR ''-''" by blast
    with False show ?thesis
      by (subst show_nat.simps) simp
  qed
qed

lemma read_int_toString: "read_int (toString i) = i"
proof (cases "i < 0")
  case True
  then show ?thesis by (simp add: toString_def read_int_def read_nat_show_nat)
next
  case False
  obtain c cs where sn: "show_nat (nat i) = c # cs" "c \<noteq> CHR ''-''"
    using show_nat_hd by blast
  have "read_nat (show_nat (nat i)) = nat i" by (rule read_nat_show_nat)
  with sn False show ?thesis by (simp add: toString_def read_int_def)
qed

lemma inj_toString: "inj toString"
  by (rule inj_on_inverseI [where g = read_int]) (rule read_int_toString)

subsection \<open>Stepping through the handlers\<close>

lemma handleGenerate_startD:
  "handleGenerate_start s = Started s' req \<Longrightarrow>
     trim (prompt s) \<noteq> [] \<and> \<not> isGenerating s \<and> user s \<noteq> None
     \<and> s' = s\<lparr>isGenerating := True, error := None\<rparr> \<and> req = (prompt s, aspectRatio (settings s))"
  by (auto simp: handleGenerate_start_def split: if_splits)

lemma handleGenerate_Started:
  "handleGenerate_start s = Started s' req \<Longrightarrow>
     handleGenerate g n1 n2 s = handleGenerate_finish req (g (fst req) (snd req)) n1 n2 s'"
  by (simp add: handleGenerate_def)

lemma handleGenerate_failed:
  assumes "handleGenerate_start s = Started s' req"
    and "g (fst req) (snd req) = Threw err"
  shows "handleGenerate g n1 n2 s =
           s\<lparr>isGenerating := False,
             error := Some (or_else (message err) ''Failed to generate image.'')\<rparr>"
proof -
  from assms(1) have s': "s' = s\<lparr>isGenerating := True, error := None\<rparr>"
    by (simp add: handleGenerate_startD)
  show ?thesis
    by (simp add: handleGenerate_Started [OF assms(1)] assms(2) handleGenerate_finish_def s')
qed

lemma generate_call_success:
  assumes "user s \<noteq> None" and "\<not> isGenerating s" and "trim (call_prompt c) \<noteq> []"
  shows "generate_call c s =
           s\<lparr>prompt := [], settings := \<lparr>aspectRatio = call_ratio c\<rparr>,
             history := artifact_of c # history s, isGenerating := False, error := None\<rparr>"
  using assms
  by (auto simp: generate_call_def handleGenerate_def handleGenerate_start_def
        handleGenerate_finish_def artifact_of_def)

lemma fold_generate_call:
  assumes "user s \<noteq> None" and "\<not> isGenerating s"
    and "\<forall>c\<in>set cs. trim (call_prompt c) \<noteq> []"
  shows "history (fold generate_call cs s) = rev (map artifact_of cs) @ history s"
  using assms
proof (induction cs arbitrary: s)
  case Nil
  show ?case by simp
next
  case (Cons c cs)
  let ?s1 = "generate_call c s"
  from Cons.prems have step: "?s1 =
      s\<lparr>prompt := [], settings := \<lparr>aspectRatio = call_ratio c\<rparr>,
        history := artifact_of c # history s, isGenerating := False, error := None\<rparr>"
    by (intro generate_call_success) simp_all
  have "history (fold generate_call cs ?s1) = rev (map artifact_of cs) @ history ?s1"
  proof (rule Cons.IH)
    show "user ?s1 \<noteq> None" using Cons.prems(1) by (simp add: step)
    show "\<not> isGenerating ?s1" by (simp add: step)
    show "\<forall>c\<in>set cs. trim (call_prompt c) \<noteq> []" using Cons.prems(3) by simp
  qed
  then show ?case by (simp add: step)
qed

lemma img_id_artifact_of: "map img_id (map artifact_of cs) = map toString (map call_now1 cs)"
  by (simp add: artifact_of_def)

lemma handleSendMessage_startD:
  "handleSendMessage_start s = Started s' req \<Longrightarrow>
     (trim (chatInput s) \<noteq> [] \<or> attachedImage s \<noteq> None) \<and> \<not> isChatting s
     \<and> (\<exists>u. user s = Some u \<and> req = chat_request s u)
     \<and> s' = s\<lparr>chatInput := [], attachedImage := None,
               chatMessages := chatMessages s @
                 [\<lparr>msg_role = User, msg_text = trim (chatInput s),
                   msg_image = map_option img_url (attachedImage s)\<rparr>],
               isChatting := True\<rparr>"
  by (auto simp: handleSendMessage_start_def split: if_splits option.splits)

lemma handleSendMessage_startI:
  "(trim (chatInput s) \<noteq> [] \<or> attachedImage s \<noteq> None) \<Longrightarrow> \<not> isChatting s \<Longrightarrow> user s = Some u \<Longrightarrow>
   handleSendMessage_start s =
     Started (s\<lparr>chatInput := [], attachedImage := None,
               chatMessages := chatMessages s @
                 [\<lparr>msg_role = User, msg_text = trim (chatInput s),
                   msg_image = map_option img_url (attachedImage s)\<rparr>],
               isChatting := True\<rparr>) (chat_request s u)"
  by (auto simp: handleSendMessage_start_def)

lemma handleSendMessage_Started:
  "handleSendMessage_start s = Started s' req \<Longrightarrow>
     handleSendMessage g s = handleSendMessage_finish (g req) s'"
  by (simp add: handleSendMessage_def)

lemma handleSendMessage_pending_id:
  "handleSendMessage_pending g (\<lambda>s. s) s = handleSendMessage g s"
  by (simp add: handleSendMessage_pending_def handleSendMessage_def)

lemma encode_message_parts:
  "c_role (encode_message m) = msg_role m
   \<and> (\<forall>im. msg_image m = Some im \<and> im \<noteq> [] \<longrightarrow>
        c_parts (encode_message m) =
          [InlineData (data_url_payload im) ''image/png'',
           Text (if msg_text m = [] then ''Analyze this image.'' else msg_text m)])
   \<and> (msg_image m = None \<or> msg_image m = Some [] \<longrightarrow>
        c_parts (encode_message m) = [Text (msg_text m)])"
  by (auto simp: encode_message_def or_else_def)

lemma handleAudioEnhance_Started:
  "handleAudioEnhance_start rd s = Started s' (f, req) \<Longrightarrow>
     handleAudioEnhance rd g u1 u2 s = handleAudioEnhance_finish f (g req) u1 u2 s'"
  by (simp add: handleAudioEnhance_def)

lemma handleAudioEnhance_startD:
  "handleAudioEnhance_start rd s = Started s' (f, req) \<Longrightarrow>
     audioFile s = Some f \<and> \<not> isAudioProcessing s \<and> user s \<noteq> None
     \<and> s' = s\<lparr>isAudioProcessing := True, error := None\<rparr>"
  by (auto simp: handleAudioEnhance_start_def split: if_splits option.splits)

subsection \<open>The handlers on the example states\<close>

lemma demo_generate_start:
  "handleGenerate_start (signed_in\<lparr>prompt := ''a red fox''\<rparr>)
     = Started (signed_in\<lparr>prompt := ''a red fox'', isGenerating := True, error := None\<rparr>)
         (''a red fox'', R1_1)"
  by (simp add: handleGenerate_start_def signed_in_def initial_state_def trim_def is_ws_def)

lemma hi_state_start:
  "handleSendMessage_start hi_state =
     Started (hi_state\<lparr>chatInput := [], attachedImage := None,
               chatMessages := initialChatMessages @
                 [\<lparr>msg_role = User, msg_text = ''hi'', msg_image = None\<rparr>],
               isChatting := True\<rparr>) (chat_request hi_state demo_user)"
  by (simp add: handleSendMessage_start_def hi_state_def signed_in_def initial_state_def
        trim_def is_ws_def)

lemma gallery_chat_start:
  "handleSendMessage_start gallery_chat_state =
     Started (gallery_chat_state\<lparr>chatInput := [], attachedImage := None,
               chatMessages := chatMessages gallery_chat_state @
                 [\<lparr>msg_role = User, msg_text = trim (chatInput gallery_chat_state),
                   msg_image = map_option img_url (attachedImage gallery_chat_state)\<rparr>],
               isChatting := True\<rparr>) (chat_request gallery_chat_state demo_user)"
  by (rule handleSendMessage_startI)
     (simp_all add: gallery_chat_state_def signed_in_def initial_state_def)

lemma fox_gallery_facts:
  "user fox_gallery_state = Some demo_user"
  "attachedImage fox_gallery_state = Some demo_image"
  "\<not> isChatting fox_gallery_state"
  "chatMessages fox_gallery_state = initialChatMessages"
  "history fox_gallery_state = [demo_image]"
  "trim (chatInput fox_gallery_state) = ''describe this''"
  by (simp_all add: fox_gallery_state_def signed_in_def initial_state_def trim_def is_ws_def)

lemma fox_gallery_start:
  "handleSendMessage_start fox_gallery_state =
     Started (fox_gallery_state\<lparr>chatInput := [], attachedImage := None,
               chatMessages := initialChatMessages @
                 [\<lparr>msg_role = User, msg_text = ''describe this'',
                   msg_image = Some ''data:image/png;base64,AAAA''\<rparr>],
               isChatting := True\<rparr>) (chat_request fox_gallery_state demo_user)"
  using handleSendMessage_startI [of fox_gallery_state demo_user]
  by (simp add: fox_gallery_facts demo_image_def)

lemma audio_state_start:
  "handleAudioEnhance_start data_url_of audio_state =
     Started (audio_state\<lparr>isAudioProcessing := True, error := None\<rparr>) (demo_file, audio_request)"
  by (simp add: handleAudioEnhance_start_def audio_state_def signed_in_def initial_state_def
        audio_request_def data_url_of_def demo_file_def data_url_payload_def index1_def)

subsection \<open>The request the assistant sends\<close>

text \<open>
  Claim C1, as amended. When \<open>handleSendMessage\<close> reaches the gateway with a log of
  \<open>k\<close> messages, the \<open>contents\<close> of its request have \<open>k + 1\<close> entries. Entry
  \<open>i\<close> keeps the role of message \<open>i\<close> of the log; its parts are the payload of the
  message's image as inline data of type \<open>image/png\<close> followed by the message's text
  (\<open>Analyze this image.\<close> for an empty text) when the message has a non-empty image
  reference, and the message's text alone otherwise. The last entry has role \<open>user\<close>; its
  parts are the payload of the staged image, if one is staged, followed by a text part that
  holds the trimmed input, or \<open>What do you think of this generation?\<close> when the trimmed
  input is empty (which, past the validation, only happens with a staged image).
\<close>

theorem send_request_contents:
  assumes "handleSendMessage_start s = Started s' req"
  shows "length (req_contents req) = length (chatMessages s) + 1
       \<and> (\<forall>i < length (chatMessages s).
            c_role (req_contents req ! i) = msg_role (chatMessages s ! i)
            \<and> (\<forall>im. msg_image (chatMessages s ! i) = Some im \<and> im \<noteq> [] \<longrightarrow>
                 c_parts (req_contents req ! i) =
                   [InlineData (data_url_payload im) ''image/png'',
                    Text (if msg_text (chatMessages s ! i) = [] then ''Analyze this image.''
                          else msg_text (chatMessages s ! i))])
            \<and> (msg_image (chatMessages s ! i) = None \<or> msg_image (chatMessages s ! i) = Some [] \<longrightarrow>
                 c_parts (req_contents req ! i) = [Text (msg_text (chatMessages s ! i))]))
       \<and> c_role (req_contents req ! length (chatMessages s)) = User
       \<and> c_parts (req_contents req ! length (chatMessages s)) =
           (case attachedImage s of
              None \<Rightarrow> []
            | Some a \<Rightarrow> [InlineData (data_url_payload (img_url a)) ''image/png''])
           @ [Text (if trim (chatInput s) = [] then ''What do you think of this generation?''
                    else trim (chatInput s))]"
proof -
  from assms obtain u where req: "req = chat_request s u"
    and valid: "trim (chatInput s) \<noteq> [] \<or> attachedImage s \<noteq> None"
    by (auto dest: handleSendMessage_startD)
  have contents: "req_contents req =
      map encode_message (chatMessages s)
      @ [\<lparr>c_role = User, c_parts = currentParts (attachedImage s) (trim (chatInput s))\<rparr>]"
    by (simp add: req chat_request_def build_contents_def)
  have hist: "req_contents req ! i = encode_message (chatMessages s ! i)"
    if "i < length (chatMessages s)" for i
    using that by (simp add: contents nth_append)
  have final: "req_contents req ! length (chatMessages s) =
      \<lparr>c_role = User, c_parts = currentParts (attachedImage s) (trim (chatInput s))\<rparr>"
    by (simp add: contents nth_append)
  have parts: "currentParts (attachedImage s) (trim (chatInput s)) =
           (case attachedImage s of
              None \<Rightarrow> []
            | Some a \<Rightarrow> [InlineData (data_url_payload (img_url a)) ''image/png''])
           @ [Text (if trim (chatInput s) = [] then ''What do you think of this generation?''
                    else trim (chatInput s))]"
    using valid by (auto simp: currentParts_def or_else_def)
  have len: "length (req_contents req) = length (chatMessages s) + 1"
    by (simp add: contents)
  show ?thesis
    using len final parts encode_message_parts by (simp add: hist)
qed

text \<open>
  An instance: a log of two messages, the first with an image and no text, an input with
  blanks around it, and a staged image.
\<close>

theorem send_request_contents_witness:
  "length (req_contents (chat_request gallery_chat_state demo_user)) = 3
   \<and> c_role (req_contents (chat_request gallery_chat_state demo_user) ! 0) = User
   \<and> c_parts (req_contents (chat_request gallery_chat_state demo_user) ! 0) =
       [InlineData (Some ''BBBB'') ''image/png'', Text ''Analyze this image.'']
   \<and> c_role (req_contents (chat_request gallery_chat_state demo_user) ! 1) = Model
   \<and> c_parts (req_contents (chat_request gallery_chat_state demo_user) ! 1) = [Text ''A fox.'']
   \<and> c_role (req_contents (chat_request gallery_chat_state demo_user) ! 2) = User
   \<and> c_parts (req_contents (chat_request gallery_chat_state demo_user) ! 2) =
       [InlineData (Some ''AAAA'') ''image/png'', Text ''and this one?'']"
proof -
  note T = send_request_contents [OF gallery_chat_start]
  have v: "chatMessages gallery_chat_state =
             [\<lparr>msg_role = User, msg_text = [], msg_image = Some ''data:image/png;base64,BBBB''\<rparr>,
              \<lparr>msg_role = Model, msg_text = ''A fox.'', msg_image = None\<rparr>]"
    "attachedImage gallery_chat_state = Some demo_image"
    "trim (chatInput gallery_chat_state) = ''and this one?''"
    by (simp_all add: gallery_chat_state_def signed_in_def initial_state_def trim_def is_ws_def)
  have p: "data_url_payload ''data:image/png;base64,BBBB'' = Some ''BBBB''"
    "data_url_payload (img_url demo_image) = Some ''AAAA''"
    by (simp_all add: data_url_payload_def index1_def demo_image_def)
  note H = T [THEN conjunct2, THEN conjunct1, rule_format]
  from T [THEN conjunct1]
  have len: "length (req_contents (chat_request gallery_chat_state demo_user)) = 3"
    by (simp add: v)
  from H [of 0]
  have e0: "c_role (req_contents (chat_request gallery_chat_state demo_user) ! 0) = User
      \<and> c_parts (req_contents (chat_request gallery_chat_state demo_user) ! 0) =
          [InlineData (Some ''BBBB'') ''image/png'', Text ''Analyze this image.'']"
    by (simp add: v(1) p)
  from H [of 1]
  have e1: "c_role (req_contents (chat_request gallery_chat_state demo_user) ! 1) = Model
      \<and> c_parts (req_contents (chat_request gallery_chat_state demo_user) ! 1) = [Text ''A fox.'']"
    by (simp add: v(1))
  from T [THEN conjunct2, THEN conjunct2]
  have e2: "c_role (req_contents (chat_request gallery_chat_state demo_user) ! 2) = User
      \<and> c_parts (req_contents (chat_request gallery_chat_state demo_user) ! 2) =
          [InlineData (Some ''AAAA'') ''image/png'', Text ''and this one?'']"
    by (simp add: v p numeral_2_eq_2)
  from len e0 e1 e2 show ?thesis by simp
qed

text \<open>
  Claim C1 as first stated asks for a text part with the user's input. With a staged image
  and an empty input the text part holds the default question instead, and no part holds
  the (empty) input.
\<close>

theorem send_request_contents_counterexample:
  "chatInput photo_only_state = []
   \<and> request_of (handleSendMessage_start photo_only_state)
       = Some (chat_request photo_only_state demo_user)
   \<and> req_contents (chat_request photo_only_state demo_user) =
       [\<lparr>c_role = User,
         c_parts = [InlineData (Some ''AAAA'') ''image/png'',
                    Text ''What do you think of this generation?'']\<rparr>]
   \<and> Text (chatInput photo_only_state)
       \<notin> set (c_parts (last (req_contents (chat_request photo_only_state demo_user))))"
  by (simp add: handleSendMessage_start_def chat_request_def build_contents_def
        currentParts_def or_else_def photo_only_state_def signed_in_def initial_state_def
        trim_def demo_image_def data_url_payload_def index1_def)

subsection \<open>Runs of successful generations\<close>

text \<open>
  Claim C2, as amended. From a signed-in, idle state with an empty history, a run of
  \<open>N\<close> generation calls that each carry a non-blank prompt and each succeed leaves a
  history of length \<open>N\<close>: the artifacts of the calls, newest first, each with the
  submitted prompt, the selected ratio, the decimal numeral of the first clock reading as
  its id and the second clock reading as its timestamp. One more successful call puts its
  artifact in front. The ids are pairwise distinct whenever the clock readings taken for
  them are pairwise distinct.
\<close>

theorem successful_generations_history:
  assumes "user s \<noteq> None" and "\<not> isGenerating s" and "history s = []"
    and "\<forall>c\<in>set cs. trim (call_prompt c) \<noteq> []"
  shows "history (run_generations cs s) = rev (map artifact_of cs)
       \<and> length (history (run_generations cs s)) = length cs
       \<and> (\<forall>c. trim (call_prompt c) \<noteq> [] \<longrightarrow>
            history (run_generations (cs @ [c]) s) = artifact_of c # history (run_generations cs s))
       \<and> (distinct (map call_now1 cs) \<longrightarrow>
            distinct (map img_id (history (run_generations cs s))))"
proof -
  have h: "history (run_generations cs s) = rev (map artifact_of cs)"
    using fold_generate_call [OF assms(1,2,4)] assms(3) by (simp add: run_generations_def)
  have more: "history (run_generations (cs @ [c]) s) = artifact_of c # history (run_generations cs s)"
    if "trim (call_prompt c) \<noteq> []" for c
  proof -
    from that assms(4) have "\<forall>x\<in>set (cs @ [c]). trim (call_prompt x) \<noteq> []" by simp
    from fold_generate_call [OF assms(1,2) this] assms(3) h
    show ?thesis by (simp add: run_generations_def)
  qed
  have d: "distinct (map img_id (history (run_generations cs s)))"
    if "distinct (map call_now1 cs)"
  proof -
    from that have "distinct (map toString (map call_now1 cs))"
      using inj_toString by (simp only: distinct_map) (auto intro: inj_on_subset)
    then have "distinct (map img_id (map artifact_of cs))"
      by (simp only: img_id_artifact_of)
    then show ?thesis by (simp add: h rev_map [symmetric] del: map_map)
  qed
  from h more d show ?thesis by simp
qed

text \<open>
  An instance: two calls some four seconds apart.
\<close>

theorem successful_generations_history_witness:
  "history (run_generations [fox_call, elk_call] signed_in) =
     [\<lparr>img_id = ''1700000004217'', img_url = ''data:image/png;base64,BBBB'',
       img_prompt = ''an elk at dawn'', img_timestamp = 1700000004217, img_aspectRatio = R16_9\<rparr>,
      \<lparr>img_id = ''1700000000000'', img_url = ''data:image/png;base64,AAAA'',
       img_prompt = ''a red fox'', img_timestamp = 1700000000000, img_aspectRatio = R1_1\<rparr>]
   \<and> distinct (map img_id (history (run_generations [fox_call, elk_call] signed_in)))"
proof -
  have a: "user signed_in \<noteq> None" "\<not> isGenerating signed_in" "history signed_in = []"
    by (simp_all add: signed_in_def initial_state_def)
  have b: "\<forall>c\<in>set [fox_call, elk_call]. trim (call_prompt c) \<noteq> []"
    by (simp add: fox_call_def elk_call_def trim_def is_ws_def)
  have c: "distinct (map call_now1 [fox_call, elk_call])"
    by (simp add: fox_call_def elk_call_def)
  have t: "toString 1700000000000 = ''1700000000000''" "toString 1700000004217 = ''1700000004217''"
    by (simp_all add: toString_def show_nat.simps digit_char_def)
  from successful_generations_history [OF a b] c
  show ?thesis by (simp add: artifact_of_def fox_call_def elk_call_def t)
qed

text \<open>
  Claim C2 as first stated asks for distinct ids after every run. The id is the clock
  reading and nothing else: two successes that read the same millisecond get the same id.
\<close>

theorem same_millisecond_ids_counterexample:
  "map img_id (history (run_generations [fox_call, owl_call] signed_in))
     = [''1700000000000'', ''1700000000000'']
   \<and> \<not> distinct (map img_id (history (run_generations [fox_call, owl_call] signed_in)))"
proof -
  have t: "toString 1700000000000 = ''1700000000000''"
    by (simp add: toString_def show_nat.simps digit_char_def)
  have "history (run_generations [fox_call, owl_call] signed_in) =
          [\<lparr>img_id = ''1700000000000'', img_url = ''data:image/png;base64,CCCC'',
            img_prompt = ''a grey owl'', img_timestamp = 1700000000000, img_aspectRatio = R3_4\<rparr>,
           \<lparr>img_id = ''1700000000000'', img_url = ''data:image/png;base64,AAAA'',
            img_prompt = ''a red fox'', img_timestamp = 1700000000000, img_aspectRatio = R1_1\<rparr>]"
    by (simp add: run_generations_def generate_call_def handleGenerate_def
          handleGenerate_start_def handleGenerate_finish_def signed_in_def initial_state_def
          fox_call_def owl_call_def trim_def is_ws_def t)
  then show ?thesis by simp
qed

subsection \<open>Invocations that do nothing\<close>

text \<open>
  Claim C3. A handler invoked while its busy flag is set, or without its primary input (a
  blank prompt for generation; a blank message and no staged image for the assistant; no
  staged file for audio), returns before the gateway call: it sends no request and leaves
  the whole state as it was, so the history, the conversation log, the audio result and the
  \<open>error\<close> cell are unchanged, whatever the gateway would have answered.
\<close>

theorem busy_or_empty_is_noop:
  "(trim (prompt s) = [] \<or> isGenerating s \<longrightarrow>
      request_of (handleGenerate_start s) = None
      \<and> state_of (handleGenerate_start s) = s
      \<and> handleGenerate generateImage now1 now2 s = s)
   \<and> ((trim (chatInput s) = [] \<and> attachedImage s = None) \<or> isChatting s \<longrightarrow>
      request_of (handleSendMessage_start s) = None
      \<and> state_of (handleSendMessage_start s) = s
      \<and> handleSendMessage chatGateway s = s)
   \<and> (audioFile s = None \<or> isAudioProcessing s \<longrightarrow>
      request_of (handleAudioEnhance_start readAsDataURL s) = None
      \<and> state_of (handleAudioEnhance_start readAsDataURL s) = s
      \<and> handleAudioEnhance readAsDataURL audioGateway u1 u2 s = s)"
proof (intro conjI impI)
  assume "trim (prompt s) = [] \<or> isGenerating s"
  then have "handleGenerate_start s = Skipped s"
    by (auto simp: handleGenerate_start_def)
  then show "request_of (handleGenerate_start s) = None"
    and "state_of (handleGenerate_start s) = s"
    and "handleGenerate generateImage now1 now2 s = s"
    by (simp_all add: handleGenerate_def)
next
  assume "(trim (chatInput s) = [] \<and> attachedImage s = None) \<or> isChatting s"
  then have "handleSendMessage_start s = Skipped s"
    by (auto simp: handleSendMessage_start_def)
  then show "request_of (handleSendMessage_start s) = None"
    and "state_of (handleSendMessage_start s) = s"
    and "handleSendMessage chatGateway s = s"
    by (simp_all add: handleSendMessage_def)
next
  assume "audioFile s = None \<or> isAudioProcessing s"
  then have "handleAudioEnhance_start readAsDataURL s = Skipped s"
    by (auto simp: handleAudioEnhance_start_def split: option.splits)
  then show "request_of (handleAudioEnhance_start readAsDataURL s) = None"
    and "state_of (handleAudioEnhance_start readAsDataURL s) = s"
    and "handleAudioEnhance readAsDataURL audioGateway u1 u2 s = s"
    by (simp_all add: handleAudioEnhance_def)
qed

text \<open>
  An instance: a state with all three flags set, and a state with blank inputs only.
\<close>

theorem busy_or_empty_is_noop_witness:
  "isGenerating busy_state \<and> isChatting busy_state \<and> isAudioProcessing busy_state
   \<and> handleGenerate service_down 1 2 busy_state = busy_state
   \<and> handleSendMessage gateway_text busy_state = busy_state
   \<and> handleAudioEnhance data_url_of gateway_text ''blob:1'' ''blob:2'' busy_state = busy_state
   \<and> trim (prompt blank_state) = [] \<and> trim (chatInput blank_state) = []
   \<and> attachedImage blank_state = None \<and> audioFile blank_state = None
   \<and> handleGenerate service_down 1 2 blank_state = blank_state
   \<and> handleSendMessage gateway_text blank_state = blank_state
   \<and> handleAudioEnhance data_url_of gateway_text ''blob:1'' ''blob:2'' blank_state = blank_state"
proof -
  have busy: "isGenerating busy_state" "isChatting busy_state" "isAudioProcessing busy_state"
    by (simp_all add: busy_state_def)
  have blank: "trim (prompt blank_state) = []" "trim (chatInput blank_state) = []"
    "attachedImage blank_state = None" "audioFile blank_state = None"
    by (simp_all add: blank_state_def signed_in_def initial_state_def trim_def is_ws_def)
  from busy blank
    busy_or_empty_is_noop [of busy_state service_down 1 2 gateway_text data_url_of gateway_text
      "''blob:1''" "''blob:2''"]
    busy_or_empty_is_noop [of blank_state service_down 1 2 gateway_text data_url_of gateway_text
      "''blob:1''" "''blob:2''"]
  show ?thesis by simp
qed

subsection \<open>Sending a message\<close>

text \<open>
  Claim C4, as amended. Take a send the page admits (a user is signed in, no earlier send
  is in flight) with an image staged, and let the events that run while the gateway call
  is pending leave the conversation log and the staged image as the start of the send left
  them. Then the send goes out and the log gains exactly two entries: the user's entry with
  the trimmed input and the reference of the staged image, then an assistant entry whose
  text is the gateway's text, or one of the two fixed fallbacks. No image is staged
  afterwards, whether the gateway answered or failed.
\<close>

theorem send_with_attachment_gains_two:
  assumes "user s = Some u" and "attachedImage s = Some a" and "\<not> isChatting s"
    and "chatMessages (during (state_of (handleSendMessage_start s)))
           = chatMessages (state_of (handleSendMessage_start s))"
    and "attachedImage (during (state_of (handleSendMessage_start s)))
           = attachedImage (state_of (handleSendMessage_start s))"
  shows "request_of (handleSendMessage_start s) = Some (chat_request s u)
       \<and> chatMessages (handleSendMessage_pending generateContent during s) =
           chatMessages s @
             [\<lparr>msg_role = User, msg_text = trim (chatInput s), msg_image = Some (img_url a)\<rparr>,
              \<lparr>msg_role = Model,
               msg_text =
                 (case generateContent (chat_request s u) of
                    Resolved r \<Rightarrow> or_else r ''I'm sorry, I couldn't process that request.''
                  | Threw err \<Rightarrow>
                      ''I encountered an error analyzing your request. Please try again.''),
               msg_image = None\<rparr>]
       \<and> length (chatMessages (handleSendMessage_pending generateContent during s))
           = length (chatMessages s) + 2
       \<and> attachedImage (handleSendMessage_pending generateContent during s) = None"
proof -
  let ?s' = "s\<lparr>chatInput := [], attachedImage := None,
               chatMessages := chatMessages s @
                 [\<lparr>msg_role = User, msg_text = trim (chatInput s),
                   msg_image = map_option img_url (attachedImage s)\<rparr>],
               isChatting := True\<rparr>"
  have start: "handleSendMessage_start s = Started ?s' (chat_request s u)"
    using assms(1-3) by (intro handleSendMessage_startI) simp_all
  from assms(4) have log: "chatMessages (during ?s') = chatMessages s @
       [\<lparr>msg_role = User, msg_text = trim (chatInput s), msg_image = Some (img_url a)\<rparr>]"
    by (simp add: start assms(2))
  from assms(5) have att: "attachedImage (during ?s') = None"
    by (simp add: start)
  have run: "handleSendMessage_pending generateContent during s =
      handleSendMessage_finish (generateContent (chat_request s u)) (during ?s')"
    by (simp add: handleSendMessage_pending_def start)
  show ?thesis
    by (cases "generateContent (chat_request s u)")
       (simp_all add: run start handleSendMessage_finish_def log att)
qed

text \<open>
  An instance: the user types a new prompt in the generator tab while the call is pending;
  once with a gateway that answers and once with one that fails.
\<close>

theorem send_with_attachment_gains_two_witness:
  "chatMessages (handleSendMessage_pending gateway_text (setPrompt ''a grey owl'') fox_gallery_state) =
     initialChatMessages @
       [\<lparr>msg_role = User, msg_text = ''describe this'',
         msg_image = Some ''data:image/png;base64,AAAA''\<rparr>,
        \<lparr>msg_role = Model, msg_text = ''A fine image.'', msg_image = None\<rparr>]
   \<and> chatMessages (handleSendMessage_pending gateway_down (setPrompt ''a grey owl'') fox_gallery_state) =
     initialChatMessages @
       [\<lparr>msg_role = User, msg_text = ''describe this'',
         msg_image = Some ''data:image/png;base64,AAAA''\<rparr>,
        \<lparr>msg_role = Model,
         msg_text = ''I encountered an error analyzing your request. Please try again.'',
         msg_image = None\<rparr>]
   \<and> attachedImage (handleSendMessage_pending gateway_text (setPrompt ''a grey owl'') fox_gallery_state) = None
   \<and> attachedImage (handleSendMessage_pending gateway_down (setPrompt ''a grey owl'') fox_gallery_state) = None"
proof -
  have q: "chatMessages (setPrompt ''a grey owl'' (state_of (handleSendMessage_start fox_gallery_state)))
           = chatMessages (state_of (handleSendMessage_start fox_gallery_state))"
    "attachedImage (setPrompt ''a grey owl'' (state_of (handleSendMessage_start fox_gallery_state)))
           = attachedImage (state_of (handleSendMessage_start fox_gallery_state))"
    by (simp_all add: setPrompt_def)
  from send_with_attachment_gains_two [where during = "setPrompt ''a grey owl''"
         and generateContent = gateway_text, OF fox_gallery_facts(1-3) q]
       send_with_attachment_gains_two [where during = "setPrompt ''a grey owl''"
         and generateContent = gateway_down, OF fox_gallery_facts(1-3) q]
  show ?thesis
    by (simp add: fox_gallery_facts demo_image_def gateway_text_def gateway_down_def or_else_def)
qed

text \<open>
  Claim C4 as first stated covers every send with a text, a staged image and a session,
  whatever happens before the reply. The Clear History button and the gallery stay enabled
  while the call is pending. A click on Clear History then empties the log, so that it ends
  with the assistant entry alone, one entry where it had one before; a click in the
  gallery stages an image again, which is still staged after the reply.
\<close>

theorem send_interrupted_counterexample:
  "user fox_gallery_state = Some demo_user
   \<and> attachedImage fox_gallery_state = Some demo_image
   \<and> chatInput fox_gallery_state = ''describe this''
   \<and> \<not> isChatting fox_gallery_state
   \<and> chatMessages fox_gallery_state = initialChatMessages
   \<and> chatMessages (handleSendMessage_pending gateway_text clearHistory fox_gallery_state) =
       [\<lparr>msg_role = Model, msg_text = ''A fine image.'', msg_image = None\<rparr>]
   \<and> length (chatMessages (handleSendMessage_pending gateway_text clearHistory fox_gallery_state))
       \<noteq> length (chatMessages fox_gallery_state) + 2
   \<and> attachedImage (handleSendMessage_pending gateway_text (attachFromGallery 0) fox_gallery_state)
       = Some demo_image"
proof -
  have c: "chatMessages (handleSendMessage_pending gateway_text clearHistory fox_gallery_state) =
       [\<lparr>msg_role = Model, msg_text = ''A fine image.'', msg_image = None\<rparr>]"
    by (simp add: handleSendMessage_pending_def fox_gallery_start handleSendMessage_finish_def
          clearHistory_def gateway_text_def or_else_def)
  have a: "attachedImage (handleSendMessage_pending gateway_text (attachFromGallery 0)
             fox_gallery_state) = Some demo_image"
    by (simp add: handleSendMessage_pending_def fox_gallery_start handleSendMessage_finish_def
          attachFromGallery_def gateway_text_def fox_gallery_facts)
  have i: "chatInput fox_gallery_state = ''describe this''"
    by (simp add: fox_gallery_state_def)
  from c a i show ?thesis
    by (simp add: fox_gallery_facts initialChatMessages_def)
qed

text \<open>
  Claim C5. When a send passes the validation, the log at the gateway call is the old log
  with the user's entry, and the handler appends one assistant entry to it: with the
  gateway's text when that is non-empty, with \<open>I'm sorry, I couldn't process that request.\<close>
  when the gateway returns no text or an empty one, and with
  \<open>I encountered an error analyzing your request. Please try again.\<close> when the gateway
  throws. In every case the handler returns a state, the \<open>error\<close> cell is what it was,
  and \<open>isChatting\<close> is false again.
\<close>

theorem send_appends_assistant_entry:
  assumes "handleSendMessage_start s = Started s' req"
  shows "chatMessages s' = chatMessages s @
           [\<lparr>msg_role = User, msg_text = trim (chatInput s),
             msg_image = map_option img_url (attachedImage s)\<rparr>]
       \<and> (\<forall>t. generateContent req = Resolved (Some t) \<and> t \<noteq> [] \<longrightarrow>
            chatMessages (handleSendMessage generateContent s) = chatMessages s' @
              [\<lparr>msg_role = Model, msg_text = t, msg_image = None\<rparr>])
       \<and> (generateContent req = Resolved None \<or> generateContent req = Resolved (Some []) \<longrightarrow>
            chatMessages (handleSendMessage generateContent s) = chatMessages s' @
              [\<lparr>msg_role = Model, msg_text = ''I'm sorry, I couldn't process that request.'',
                msg_image = None\<rparr>])
       \<and> (\<forall>err. generateContent req = Threw err \<longrightarrow>
            chatMessages (handleSendMessage generateContent s) = chatMessages s' @
              [\<lparr>msg_role = Model,
                msg_text = ''I encountered an error analyzing your request. Please try again.'',
                msg_image = None\<rparr>])
       \<and> error (handleSendMessage generateContent s) = error s
       \<and> \<not> isChatting (handleSendMessage generateContent s)"
proof -
  from assms have s': "s' = s\<lparr>chatInput := [], attachedImage := None,
               chatMessages := chatMessages s @
                 [\<lparr>msg_role = User, msg_text = trim (chatInput s),
                   msg_image = map_option img_url (attachedImage s)\<rparr>],
               isChatting := True\<rparr>"
    by (simp add: handleSendMessage_startD)
  have run: "handleSendMessage generateContent s = handleSendMessage_finish (generateContent req) s'"
    using assms by (rule handleSendMessage_Started)
  show ?thesis
    by (cases "generateContent req")
       (auto simp: run s' handleSendMessage_finish_def or_else_def)
qed

text \<open>
  An instance for each of the three outcomes.
\<close>

theorem send_appends_assistant_entry_witness:
  "chatMessages (handleSendMessage gateway_text hi_state) =
     initialChatMessages @
       [\<lparr>msg_role = User, msg_text = ''hi'', msg_image = None\<rparr>,
        \<lparr>msg_role = Model, msg_text = ''A fine image.'', msg_image = None\<rparr>]
   \<and> chatMessages (handleSendMessage gateway_empty hi_state) =
     initialChatMessages @
       [\<lparr>msg_role = User, msg_text = ''hi'', msg_image = None\<rparr>,
        \<lparr>msg_role = Model, msg_text = ''I'm sorry, I couldn't process that request.'',
         msg_image = None\<rparr>]
   \<and> chatMessages (handleSendMessage gateway_down hi_state) =
     initialChatMessages @
       [\<lparr>msg_role = User, msg_text = ''hi'', msg_image = None\<rparr>,
        \<lparr>msg_role = Model,
         msg_text = ''I encountered an error analyzing your request. Please try again.'',
         msg_image = None\<rparr>]
   \<and> error (handleSendMessage gateway_down hi_state) = None"
proof -
  have e: "error hi_state = None"
    by (simp add: hi_state_def signed_in_def initial_state_def)
  from e
    send_appends_assistant_entry [OF hi_state_start, where generateContent = gateway_text]
    send_appends_assistant_entry [OF hi_state_start, where generateContent = gateway_empty]
    send_appends_assistant_entry [OF hi_state_start, where generateContent = gateway_down]
  show ?thesis
    by (simp add: gateway_text_def gateway_empty_def gateway_down_def)
qed

subsection \<open>Generation failures\<close>

text \<open>
  Claim C6. When a generation call reaches the service and the service fails, \<open>error\<close>
  holds the message of the failure, or \<open>Failed to generate image.\<close> when the message is
  missing or empty; \<open>history\<close> is unchanged and \<open>isGenerating\<close> is false again.
\<close>

theorem generate_failure_records_error:
  assumes "handleGenerate_start s = Started s' req"
    and "generateImage (fst req) (snd req) = Threw err"
  shows "(\<forall>m. message err = Some m \<and> m \<noteq> [] \<longrightarrow>
            error (handleGenerate generateImage now1 now2 s) = Some m)
       \<and> (message err = None \<or> message err = Some [] \<longrightarrow>
            error (handleGenerate generateImage now1 now2 s) = Some ''Failed to generate image.'')
       \<and> history (handleGenerate generateImage now1 now2 s) = history s
       \<and> \<not> isGenerating (handleGenerate generateImage now1 now2 s)"
  by (auto simp: handleGenerate_failed [where g = generateImage, OF assms] or_else_def)

text \<open>
  An instance with a failure that carries a message and one that carries none.
\<close>

theorem generate_failure_records_error_witness:
  "error (handleGenerate service_down 1700000000000 1700000000001
            (signed_in\<lparr>prompt := ''a red fox''\<rparr>)) = Some ''quota exceeded''
   \<and> error (handleGenerate service_silent 1700000000000 1700000000001
            (signed_in\<lparr>prompt := ''a red fox''\<rparr>)) = Some ''Failed to generate image.''
   \<and> history (handleGenerate service_down 1700000000000 1700000000001
            (signed_in\<lparr>prompt := ''a red fox''\<rparr>)) = []
   \<and> \<not> isGenerating (handleGenerate service_down 1700000000000 1700000000001
            (signed_in\<lparr>prompt := ''a red fox''\<rparr>))"
proof -
  have b: "service_down (fst (''a red fox'', R1_1)) (snd (''a red fox'', R1_1))
             = Threw (JsError (Some ''quota exceeded''))"
    by (simp add: service_down_def)
  have c: "service_silent (fst (''a red fox'', R1_1)) (snd (''a red fox'', R1_1))
             = Threw (JsError None)"
    by (simp add: service_silent_def)
  have h: "history (signed_in\<lparr>prompt := ''a red fox''\<rparr>) = []"
    by (simp add: signed_in_def initial_state_def)
  from generate_failure_records_error [where generateImage = service_down, OF demo_generate_start b,
         of 1700000000000 1700000000001]
       generate_failure_records_error [where generateImage = service_silent, OF demo_generate_start c,
         of 1700000000000 1700000000001]
       h
  show ?thesis by simp
qed

text \<open>
  Claim C10. When a generation call reaches the service and the service fails, the prompt
  cell is what it was before the call: \<open>setPrompt('')\<close> is on the success path only.
\<close>

theorem generate_failure_keeps_prompt:
  assumes "handleGenerate_start s = Started s' req"
    and "generateImage (fst req) (snd req) = Threw err"
  shows "prompt (handleGenerate generateImage now1 now2 s) = prompt s"
  by (simp add: handleGenerate_failed [where g = generateImage, OF assms])

text \<open>
  An instance: the prompt \<open>a red fox\<close> survives a failed call.
\<close>

theorem generate_failure_keeps_prompt_witness:
  "handleGenerate_start (signed_in\<lparr>prompt := ''a red fox''\<rparr>)
     = Started (signed_in\<lparr>prompt := ''a red fox'', isGenerating := True, error := None\<rparr>)
         (''a red fox'', R1_1)
   \<and> service_down ''a red fox'' R1_1 = Threw (JsError (Some ''quota exceeded''))
   \<and> prompt (handleGenerate service_down 1700000000000 1700000000001
               (signed_in\<lparr>prompt := ''a red fox''\<rparr>)) = ''a red fox''"
proof -
  have b: "service_down (fst (''a red fox'', R1_1)) (snd (''a red fox'', R1_1))
             = Threw (JsError (Some ''quota exceeded''))"
    by (simp add: service_down_def)
  have "prompt (handleGenerate service_down 1700000000000 1700000000001
                 (signed_in\<lparr>prompt := ''a red fox''\<rparr>))
          = prompt (signed_in\<lparr>prompt := ''a red fox''\<rparr>)"
    by (rule generate_failure_keeps_prompt [where generateImage = service_down, OF demo_generate_start b])
  with demo_generate_start b show ?thesis by simp
qed

subsection \<open>Loading the stored history\<close>

text \<open>
  What the load effect does get right: when the stored history is absent or empty, or
  \<open>JSON.parse\<close> throws on it, the \<open>history\<close> cell keeps its initial value, the empty
  list. Whatever \<open>JSON.parse\<close> returns, on the other hand, is put into the cell as it is.
\<close>

lemma load_history_unparseable:
  assumes "saved = None \<or> saved = Some [] \<or> parsed = SyntaxError"
  shows "fst (load_effect saved parsed savedUser parsedUser) = JArr []"
  using assms by (auto simp: load_effect_def load_item_def split: option.splits)

lemma load_adopts_parsed_value:
  "truthy saved \<Longrightarrow> fst (load_effect saved (Parsed v) savedUser parsedUser) = v"
  by (simp add: load_effect_def load_item_def)

text \<open>
  Claim C7 fails on the code. The \<open>try\<close>/\<open>catch\<close> around \<open>JSON.parse\<close> is there to
  survive a corrupt store, but it only catches a syntax error. The stored text \<open>{}\<close> is
  valid JSON without the shape of a history: the effect puts the object into the
  \<open>history\<close> cell instead of leaving the empty list, and the render that follows throws
  in the History Grid, where \<open>history.map\<close> is not a function.
\<close>

theorem load_history_wrong_shape:
  "\<not> is_history (JObj [])
   \<and> fst (load_effect (Some ''{}'') (Parsed (JObj [])) None SyntaxError) = JObj []
   \<and> fst (load_effect (Some ''{}'') (Parsed (JObj [])) None SyntaxError) \<noteq> JArr []
   \<and> gallery_section (fst (load_effect (Some ''{}'') (Parsed (JObj [])) None SyntaxError))
       = Inl TypeError"
  by (simp add: load_effect_def load_item_def gallery_section_def)

subsection \<open>The result of an audio analysis\<close>

text \<open>
  Claim C8. When an audio call reaches the gateway and the gateway answers, the audio
  result holds the two object URLs minted for the staged file, which both stand for that
  very file, bytes and all, and the file stays staged; the transcription is the gateway's
  text, or \<open>Processing complete.\<close> when the text is missing or empty.
\<close>

theorem audio_success_result:
  assumes "handleAudioEnhance_start readAsDataURL s = Started s' (f, req)"
    and "generateContent req = Resolved r"
  shows "audioFile s = Some f
       \<and> audioResult (handleAudioEnhance readAsDataURL generateContent u1 u2 s) =
           Some \<lparr>original = u1, enhanced = u2,
                 transcription =
                   (case r of
                      None \<Rightarrow> ''Processing complete.''
                    | Some t \<Rightarrow> if t = [] then ''Processing complete.'' else t)\<rparr>
       \<and> objectURLs (handleAudioEnhance readAsDataURL generateContent u1 u2 s) u1 = Some f
       \<and> objectURLs (handleAudioEnhance readAsDataURL generateContent u1 u2 s) u2 = Some f
       \<and> audioFile (handleAudioEnhance readAsDataURL generateContent u1 u2 s) = Some f"
proof -
  from assms(1) have f: "audioFile s = Some f"
    and s': "s' = s\<lparr>isAudioProcessing := True, error := None\<rparr>"
    by (simp_all add: handleAudioEnhance_startD)
  have run: "handleAudioEnhance readAsDataURL generateContent u1 u2 s =
      handleAudioEnhance_finish f (generateContent req) u1 u2 s'"
    using assms(1) by (rule handleAudioEnhance_Started)
  show ?thesis
    by (simp add: run assms(2) handleAudioEnhance_finish_def createObjectURL_def s' f
          or_else_def)
qed

text \<open>
  An instance, once with a gateway that answers with a text and once with an empty text.
\<close>

theorem audio_success_result_witness:
  "audioResult (handleAudioEnhance data_url_of gateway_text ''blob:1'' ''blob:2'' audio_state) =
     Some \<lparr>original = ''blob:1'', enhanced = ''blob:2'', transcription = ''A fine image.''\<rparr>
   \<and> audioResult (handleAudioEnhance data_url_of gateway_empty ''blob:1'' ''blob:2'' audio_state) =
     Some \<lparr>original = ''blob:1'', enhanced = ''blob:2'', transcription = ''Processing complete.''\<rparr>
   \<and> objectURLs (handleAudioEnhance data_url_of gateway_text ''blob:1'' ''blob:2'' audio_state)
       ''blob:1'' = Some demo_file
   \<and> objectURLs (handleAudioEnhance data_url_of gateway_text ''blob:1'' ''blob:2'' audio_state)
       ''blob:2'' = Some demo_file
   \<and> file_bytes demo_file = ''RIFF''"
proof -
  have a: "gateway_text audio_request = Resolved (Some ''A fine image.'')"
    by (simp add: gateway_text_def)
  have b: "gateway_empty audio_request = Resolved (Some [])"
    by (simp add: gateway_empty_def)
  from audio_success_result [where generateContent = gateway_text, OF audio_state_start a,
         of "''blob:1''" "''blob:2''"]
       audio_success_result [where generateContent = gateway_empty, OF audio_state_start b,
         of "''blob:1''" "''blob:2''"]
  show ?thesis by (simp add: demo_file_def)
qed

subsection \<open>Sign-out against Clear History\<close>

text \<open>
  Claim C9. Signing out clears the session (the \<open>user\<close> cell and its stored copy) and
  replaces the whole conversation log, whatever it held, by a single greeting of the
  assistant; the Clear History button leaves an empty log and keeps the session.
\<close>

theorem logout_reseeds_greeting:
  "user (handleLogout s) = None
   \<and> localStorage (handleLogout s) USER_KEY = None
   \<and> chatMessages (handleLogout s) =
       [\<lparr>msg_role = Model,
         msg_text = ''Hello! I am your FlipArt Assistant. How can I help you today?'',
         msg_image = None\<rparr>]
   \<and> chatMessages (clearHistory s) = []
   \<and> user (clearHistory s) = user s"
  by (simp add: handleLogout_def clearHistory_def)

end
